theory Spec2Isabelle
  imports Complex_Main "HOL-Library.Multiset"
begin

section \<open>The messages API of the GoodMorning server\<close>

text \<open>
  The server is one Express application over one PostgreSQL table \<open>messages\<close>.
  Each route handler becomes a function from the request, the environment of the
  request and the table to the HTTP response and the table afterwards. What a handler
  throws is a value, and the \<open>catch\<close> block of the handler is a case distinction
  on it.
\<close>

subsection \<open>JavaScript values\<close>

text \<open>
  A number is an IEEE double. \<open>Fin q\<close> is the finite double with the exact value
  \<open>q\<close> (both zeros are \<open>Fin 0\<close>); a JSON number too large for a double is parsed
  to an infinity. NaN cannot come out of a JSON text and is not a value of the model.
\<close>

datatype jsnum = Fin rat | PInf | NInf

text \<open>
  A string is its list of code units, \<open>length\<close> counts them. A \<open>char\<close> has eight
  bits, so the model covers the strings whose code units are below 256.
  \<open>JDate t\<close> is a \<open>Date\<close> object for the instant \<open>t\<close>, as the database driver
  builds for a \<open>TIMESTAMP WITH TIME ZONE\<close> column; it is sent as a string in ISO format.
  \<open>JObj\<close> lists the own properties of a plain object in insertion order, each key once.
\<close>

datatype jsval =
    JUndefined
  | JNull
  | JBool bool
  | JNum jsnum
  | JStr string
  | JDate int
  | JArr "jsval list"
  | JObj "(string \<times> jsval) list"

text \<open>What the handlers throw and catch: the message is \<open>error.message\<close>.\<close>

datatype thrown = TypeError string | DatabaseError string

fun error_message :: "thrown \<Rightarrow> string" where
  "error_message (TypeError m) = m"
| "error_message (DatabaseError m) = m"

text \<open>\<open>!v\<close> is \<open>\<not> truthy v\<close>.\<close>

fun truthy :: "jsval \<Rightarrow> bool" where
  "truthy JUndefined = False"
| "truthy JNull = False"
| "truthy (JBool b) = b"
| "truthy (JNum (Fin q)) = (q \<noteq> 0)"
| "truthy (JNum PInf) = True"
| "truthy (JNum NInf) = True"
| "truthy (JStr s) = (s \<noteq> [])"
| "truthy (JDate t) = True"
| "truthy (JArr xs) = True"
| "truthy (JObj kvs) = True"

text \<open>
  The property read \<open>v.k\<close> for a key \<open>k\<close> that no prototype defines (\<open>name\<close>,
  \<open>email\<close>, \<open>message\<close>): a \<open>TypeError\<close> on \<open>undefined\<close> and \<open>null\<close>, the own
  property of an object, \<open>undefined\<close> otherwise.
\<close>

fun get_prop :: "jsval \<Rightarrow> string \<Rightarrow> thrown + jsval" where
  "get_prop JUndefined k = Inl (TypeError (''Cannot read properties of undefined (reading '' @ k @ '')''))"
| "get_prop JNull k = Inl (TypeError (''Cannot read properties of null (reading '' @ k @ '')''))"
| "get_prop (JObj kvs) k = Inr (case map_of kvs k of None \<Rightarrow> JUndefined | Some v \<Rightarrow> v)"
| "get_prop v k = Inr JUndefined"

text \<open>
  \<open>v.length\<close>: the number of code units of a string, the number of elements of an array,
  the own property of a plain object, \<open>undefined\<close> on a number, a boolean or a date.
\<close>

fun js_length :: "jsval \<Rightarrow> thrown + jsval" where
  "js_length JUndefined = Inl (TypeError ''Cannot read properties of undefined (reading length)'')"
| "js_length JNull = Inl (TypeError ''Cannot read properties of null (reading length)'')"
| "js_length (JStr s) = Inr (JNum (Fin (of_nat (length s))))"
| "js_length (JArr xs) = Inr (JNum (Fin (of_nat (length xs))))"
| "js_length (JObj kvs) = Inr (case map_of kvs ''length'' of None \<Rightarrow> JUndefined | Some v \<Rightarrow> v)"
| "js_length v = Inr JUndefined"

text \<open>
  Two functions of the platform are parameters of the model.
  \<^item> \<open>int4in\<close> is the input conversion of PostgreSQL for the type \<open>integer\<close>: the
    driver sends the parameter \<open>$1\<close> of \<open>WHERE id = $1\<close> as text, and the engine
    converts it; \<open>None\<close> when the engine rejects the text (bad syntax, out of range).
    Which texts are accepted beyond the decimal literals depends on the release.
  \<^item> \<open>js_gt v q\<close> is the JavaScript comparison \<open>v > q\<close> for an operand \<open>v\<close> that is
    a string, an array, a date or a plain object, where the language converts \<open>v\<close>
    with ToPrimitive and ToNumber first; \<open>None\<close> when that conversion throws a
    \<open>TypeError\<close>.
\<close>

record platform =
  int4in :: "string \<Rightarrow> int option"
  js_gt :: "jsval \<Rightarrow> rat \<Rightarrow> bool option"

text \<open>
  \<open>v > q\<close> for a number \<open>q\<close>. \<open>undefined\<close> converts to NaN, which compares false;
  \<open>null\<close> and \<open>false\<close> to 0, \<open>true\<close> to 1.
\<close>

fun greater_than :: "platform \<Rightarrow> jsval \<Rightarrow> rat \<Rightarrow> thrown + bool" where
  "greater_than P JUndefined q = Inr False"
| "greater_than P JNull q = Inr (0 > q)"
| "greater_than P (JBool b) q = Inr ((if b then 1 else 0) > q)"
| "greater_than P (JNum (Fin x)) q = Inr (x > q)"
| "greater_than P (JNum PInf) q = Inr True"
| "greater_than P (JNum NInf) q = Inr False"
| "greater_than P v q =
     (case js_gt P v q of
        None \<Rightarrow> Inl (TypeError ''Cannot convert object to primitive value'')
      | Some b \<Rightarrow> Inr b)"

text \<open>
  \<open>String.prototype.trim\<close> strips white space and line terminators from both ends.
  Of those, the code units below 256 are U+0009 to U+000D, U+0020 and U+00A0.
\<close>

definition is_space :: "char \<Rightarrow> bool" where
  "is_space c = (of_char c \<in> {9, 10, 11, 12, 13, 32, 160 :: nat})"

definition trim :: "string \<Rightarrow> string" where
  "trim s = rev (dropWhile is_space (rev (dropWhile is_space s)))"

text \<open>\<open>v.trim()\<close>: only a string has the method.\<close>

fun js_trim :: "jsval \<Rightarrow> thrown + string" where
  "js_trim JUndefined = Inl (TypeError ''Cannot read properties of undefined (reading trim)'')"
| "js_trim JNull = Inl (TypeError ''Cannot read properties of null (reading trim)'')"
| "js_trim (JStr s) = Inr (trim s)"
| "js_trim v = Inl (TypeError ''trim is not a function'')"

text \<open>
  \<open>res.json\<close> sends \<open>JSON.stringify\<close> of its argument: a property whose value is
  \<open>undefined\<close> is left out, \<open>undefined\<close> in an array and an infinite number become
  \<open>null\<close>.
\<close>

fun to_json :: "jsval \<Rightarrow> jsval" where
  "to_json (JObj kvs) =
     JObj (map (\<lambda>kv. (fst kv, to_json (snd kv))) (filter (\<lambda>kv. snd kv \<noteq> JUndefined) kvs))"
| "to_json (JArr xs) = JArr (map (\<lambda>v. if v = JUndefined then JNull else to_json v) xs)"
| "to_json (JNum PInf) = JNull"
| "to_json (JNum NInf) = JNull"
| "to_json v = v"


subsection \<open>The table\<close>

text \<open>
  A row of \<open>messages\<close>, with the columns of \<open>CREATE TABLE\<close> in \<open>initDb\<close>.
  A timestamp is an instant on the clock of the database, as an integer.
\<close>

record message =
  msg_id :: int
  msg_name :: string
  msg_email :: string
  msg_message :: string
  created_at :: int
  updated_at :: int

text \<open>
  The table is the list of its rows in the order of their insertion, with the next value
  of the sequence behind \<open>id SERIAL\<close>.
\<close>

record db =
  rows :: "message list"
  id_seq :: int

text \<open>The table as \<open>initDb\<close> creates it in a fresh database.\<close>

definition empty_db :: db where
  "empty_db = \<lparr>rows = [], id_seq = 1\<rparr>"

text \<open>
  Storing into a \<open>VARCHAR(255)\<close> column: a longer text is an error, unless only spaces
  are beyond the limit, which are cut.
\<close>

definition varchar255 :: "string \<Rightarrow> string option" where
  "varchar255 s =
     (if length s \<le> 255 then Some s
      else if list_all (\<lambda>c. c = CHR '' '') (drop 255 s) then Some (take 255 s)
      else None)"

text \<open>
  A text that PostgreSQL can store: the code unit U+0000 is in no text value, and a
  parameter that holds it is rejected when the statement is bound.
\<close>

definition storable :: "string \<Rightarrow> bool" where
  "storable s = list_all (\<lambda>c. of_char c \<noteq> (0 :: nat)) s"

text \<open>
  \<open>INSERT INTO messages (name, email, message) VALUES ($1, $2, $3) RETURNING ...\<close>
  at the instant \<open>now\<close>. The three parameters must be storable texts, name and email
  within \<open>VARCHAR(255)\<close>. The id is the next value of the sequence of \<open>id SERIAL\<close>,
  which ends at 2147483647: beyond it \<open>nextval\<close> fails. Both timestamp columns
  default to \<open>CURRENT_TIMESTAMP\<close>. The primary key rejects an id that is in the
  table; the value of the sequence is used up all the same.
\<close>

definition db_insert :: "int \<Rightarrow> string \<Rightarrow> string \<Rightarrow> string \<Rightarrow> db \<Rightarrow> (thrown + message list) \<times> db" where
  "db_insert now n e m d =
     (if storable n \<and> storable e \<and> storable m
      then
        (case (varchar255 n, varchar255 e) of
           (Some n', Some e') \<Rightarrow>
             (let i = id_seq d;
                  r = \<lparr>msg_id = i, msg_name = n', msg_email = e', msg_message = m,
                       created_at = now, updated_at = now\<rparr>
              in if 2147483647 < i
                 then (Inl (DatabaseError ''nextval: reached maximum value of sequence messages_id_seq (2147483647)''), d)
                 else if i \<in> set (map msg_id (rows d))
                 then (Inl (DatabaseError ''duplicate key value violates unique constraint messages_pkey''),
                       d\<lparr>id_seq := i + 1\<rparr>)
                 else (Inr [r], \<lparr>rows = rows d @ [r], id_seq = i + 1\<rparr>))
         | _ \<Rightarrow> (Inl (DatabaseError ''value too long for type character varying(255)''), d))
      else (Inl (DatabaseError ''invalid byte sequence for encoding UTF8: 0x00''), d))"

text \<open>
  \<open>SELECT ... FROM messages ORDER BY created_at DESC\<close>. PostgreSQL leaves the order
  of rows with equal \<open>created_at\<close> open: it is the choice of the engine for the query
  at hand. The choice is the parameter \<open>rank\<close>: rows of equal \<open>created_at\<close> come by
  ascending rank. Both sorts are stable, so the second one keeps the order by rank among
  rows of equal \<open>created_at\<close>.
\<close>

definition db_select_all :: "(message \<Rightarrow> int) \<Rightarrow> db \<Rightarrow> message list" where
  "db_select_all rank d = sort_key (\<lambda>r. - created_at r) (sort_key rank (rows d))"

text \<open>\<open>SELECT ... FROM messages WHERE id = $1\<close>, the parameter converted.\<close>

definition db_select_by_id :: "int \<Rightarrow> db \<Rightarrow> message list" where
  "db_select_by_id i d = filter (\<lambda>r. msg_id r = i) (rows d)"

text \<open>\<open>DELETE FROM messages WHERE id = $1\<close>: the number of rows deleted, and the table.\<close>

definition db_delete :: "int \<Rightarrow> db \<Rightarrow> nat \<times> db" where
  "db_delete i d =
     (length (filter (\<lambda>r. msg_id r = i) (rows d)),
      d\<lparr>rows := filter (\<lambda>r. msg_id r \<noteq> i) (rows d)\<rparr>)"

subsection \<open>The environment of a request\<close>

text \<open>
  What a request reads that is neither its input nor the table:
  \<^item> \<open>node_env\<close>: \<open>process.env.NODE_ENV\<close>, \<open>None\<close> when it is not set;
  \<^item> \<open>fault\<close>: when it is \<open>Some m\<close>, a \<open>pool.query\<close> of this request is rejected with an
    error of message \<open>m\<close> for a reason outside the statement and its arguments (no
    connection, a timeout, an exhausted pool) and the table stays as it is;
  \<^item> \<open>db_time\<close>: \<open>CURRENT_TIMESTAMP\<close> and \<open>NOW()\<close> of the database;
  \<^item> \<open>tie_rank\<close>: the order in which the engine answers rows of equal \<open>created_at\<close>
    in the \<open>ORDER BY\<close> query of this request;
  \<^item> \<open>iso_time\<close> and \<open>uptime\<close>: \<open>new Date().toISOString()\<close> and
    \<open>process.uptime()\<close> of the server;
  \<^item> \<open>pg_version\<close>, \<open>tables\<close>, \<open>columns\<close>: the answers of the engine to
    \<open>version()\<close> and to the two queries on \<open>information_schema\<close>.
\<close>

record env =
  node_env :: "string option"
  fault :: "string option"
  db_time :: int
  tie_rank :: "message \<Rightarrow> int"
  iso_time :: string
  uptime :: rat
  pg_version :: string
  tables :: "jsval list"
  columns :: "jsval list"

text \<open>\<open>await pool.query(...)\<close>: the rejection of \<open>fault\<close>, or the statement on the table.\<close>

definition query_insert :: "env \<Rightarrow> string \<Rightarrow> string \<Rightarrow> string \<Rightarrow> db \<Rightarrow> (thrown + message list) \<times> db" where
  "query_insert E n e m d =
     (case fault E of
        Some x \<Rightarrow> (Inl (DatabaseError x), d)
      | None \<Rightarrow> db_insert (db_time E) n e m d)"

definition query_select_all :: "env \<Rightarrow> db \<Rightarrow> thrown + message list" where
  "query_select_all E d =
     (case fault E of
        Some x \<Rightarrow> Inl (DatabaseError x)
      | None \<Rightarrow> Inr (db_select_all (tie_rank E) d))"

definition query_select_by_id :: "platform \<Rightarrow> env \<Rightarrow> string \<Rightarrow> db \<Rightarrow> thrown + message list" where
  "query_select_by_id P E idtext d =
     (case fault E of
        Some x \<Rightarrow> Inl (DatabaseError x)
      | None \<Rightarrow>
          (case int4in P idtext of
             None \<Rightarrow> Inl (DatabaseError (''invalid input syntax for type integer: '' @ idtext))
           | Some i \<Rightarrow> Inr (db_select_by_id i d)))"

definition query_delete :: "platform \<Rightarrow> env \<Rightarrow> string \<Rightarrow> db \<Rightarrow> (thrown + nat) \<times> db" where
  "query_delete P E idtext d =
     (case fault E of
        Some x \<Rightarrow> (Inl (DatabaseError x), d)
      | None \<Rightarrow>
          (case int4in P idtext of
             None \<Rightarrow> (Inl (DatabaseError (''invalid input syntax for type integer: '' @ idtext)), d)
           | Some i \<Rightarrow> (case db_delete i d of (n, d') \<Rightarrow> (Inr n, d'))))"


subsection \<open>Responses\<close>

record response =
  status :: nat
  body :: jsval

text \<open>\<open>res.status(c).json(v)\<close>; \<open>res.json(v)\<close> alone has the status 200.\<close>

definition res_json :: "nat \<Rightarrow> jsval \<Rightarrow> response" where
  "res_json c v = \<lparr>status = c, body = to_json v\<rparr>"

text \<open>The object literal \<open>{success: false, error: e, message: m}\<close> of the error answers.\<close>

definition failure :: "string \<Rightarrow> string \<Rightarrow> jsval" where
  "failure e m = JObj [(''success'', JBool False), (''error'', JStr e), (''message'', JStr m)]"

text \<open>A row as the driver hands it to the handler.\<close>

definition row_json :: "message \<Rightarrow> jsval" where
  "row_json r =
     JObj [(''id'', JNum (Fin (of_int (msg_id r)))),
           (''name'', JStr (msg_name r)),
           (''email'', JStr (msg_email r)),
           (''message'', JStr (msg_message r)),
           (''created_at'', JDate (created_at r)),
           (''updated_at'', JDate (updated_at r))]"

subsection \<open>The route handlers\<close>

text \<open>\<open>GET /api/health\<close>.\<close>

definition get_health :: "env \<Rightarrow> response" where
  "get_health E =
     res_json 200 (JObj [(''status'', JStr ''OK''),
                         (''message'', JStr ''Server is running smoothly''),
                         (''timestamp'', JStr (iso_time E)),
                         (''uptime'', JNum (Fin (uptime E)))])"

text \<open>\<open>s.split(c)\<close> for a separator of one code unit.\<close>

fun split_on :: "char \<Rightarrow> string \<Rightarrow> string list" where
  "split_on c [] = [[]]"
| "split_on c (x # xs) =
     (if x = c then [] # split_on c xs
      else (case split_on c xs of [] \<Rightarrow> [[x]] | p # ps \<Rightarrow> (x # p) # ps))"

text \<open>\<open>xs[i]\<close> on an array of strings: \<open>undefined\<close> out of range.\<close>

definition element :: "string list \<Rightarrow> nat \<Rightarrow> jsval" where
  "element xs i = (if i < length xs then JStr (xs ! i) else JUndefined)"

text \<open>
  \<open>GET /api/test-db\<close>. Two queries, \<open>SELECT NOW(), version()\<close> and
  \<open>SELECT COUNT(*) FROM messages\<close>; the count comes as a decimal text, which
  \<open>parseInt\<close> reads back.
\<close>

definition get_test_db :: "env \<Rightarrow> db \<Rightarrow> response" where
  "get_test_db E d =
     (case fault E of
        None \<Rightarrow>
          res_json 200
            (JObj [(''success'', JBool True),
                   (''database'',
                      JObj [(''connected'', JBool True),
                            (''time'', JDate (db_time E)),
                            (''version'', element (split_on CHR '' '' (pg_version E)) 1)]),
                   (''messages'', JObj [(''count'', JNum (Fin (of_nat (length (rows d)))))])])
      | Some x \<Rightarrow>
          res_json 500
            (JObj [(''success'', JBool False),
                   (''error'', JStr ''Database connection failed''),
                   (''message'', JStr (error_message (DatabaseError x)))]))"

text \<open>\<open>GET /api/check-tables\<close>.\<close>

definition get_check_tables :: "env \<Rightarrow> response" where
  "get_check_tables E =
     (case fault E of
        None \<Rightarrow>
          res_json 200
            (JObj [(''success'', JBool True),
                   (''tables'', JArr (tables E)),
                   (''messages_columns'', JArr (columns E))])
      | Some x \<Rightarrow>
          res_json 500
            (JObj [(''success'', JBool False),
                   (''error'', JStr (error_message (DatabaseError x)))]))"

text \<open>\<open>GET /api/messages\<close>.\<close>

definition get_messages :: "env \<Rightarrow> db \<Rightarrow> response" where
  "get_messages E d =
     (case query_select_all E d of
        Inr result_rows \<Rightarrow>
          res_json 200
            (JObj [(''success'', JBool True),
                   (''count'', JNum (Fin (of_nat (length result_rows)))),
                   (''data'', JArr (map row_json result_rows))])
      | Inl error \<Rightarrow>
          res_json 500
            (JObj [(''success'', JBool False),
                   (''error'', JStr ''Internal server error''),
                   (''message'', JStr ''Failed to fetch messages''),
                   (''details'',
                      if node_env E = Some ''development'' then JStr (error_message error)
                      else JUndefined)]))"

text \<open>\<open>GET /api/messages/:id\<close>; \<open>idtext\<close> is \<open>req.params.id\<close>.\<close>

definition get_message :: "platform \<Rightarrow> env \<Rightarrow> string \<Rightarrow> db \<Rightarrow> response" where
  "get_message P E idtext d =
     (case query_select_by_id P E idtext d of
        Inr [] \<Rightarrow> res_json 404 (failure ''Not found'' ''Message not found'')
      | Inr (r # _) \<Rightarrow> res_json 200 (JObj [(''success'', JBool True), (''data'', row_json r)])
      | Inl error \<Rightarrow> res_json 500 (failure ''Internal server error'' ''Failed to fetch message''))"

text \<open>
  \<open>POST /api/messages\<close>; \<open>b\<close> is \<open>req.body\<close>. The \<open>try\<close> block has three
  parts. The first is \<open>const { name, email, message } = req.body\<close>.
\<close>

definition post_fields :: "jsval \<Rightarrow> thrown + jsval \<times> jsval \<times> jsval" where
  "post_fields b =
     (case get_prop b ''name'' of Inl t \<Rightarrow> Inl t | Inr name \<Rightarrow>
     (case get_prop b ''email'' of Inl t \<Rightarrow> Inl t | Inr email \<Rightarrow>
     (case get_prop b ''message'' of Inl t \<Rightarrow> Inl t | Inr message \<Rightarrow>
        Inr (name, email, message))))"

text \<open>
  The second part is the validation: \<open>Some\<close> response when one of the three \<open>if\<close>
  statements returns, \<open>None\<close> when the handler goes on.
\<close>

definition post_validation :: "platform \<Rightarrow> jsval \<Rightarrow> jsval \<Rightarrow> jsval \<Rightarrow> thrown + response option" where
  "post_validation P name email message =
     (if \<not> truthy name \<or> \<not> truthy email \<or> \<not> truthy message
      then Inr (Some (res_json 400 (failure ''Validation failed''
                        ''All fields (name, email, message) are required'')))
      else
     (case js_length name of Inl t \<Rightarrow> Inl t | Inr name_length \<Rightarrow>
     (case greater_than P name_length 255 of Inl t \<Rightarrow> Inl t | Inr name_long \<Rightarrow>
      if name_long
      then Inr (Some (res_json 400 (failure ''Validation failed''
                        ''Name must be less than 255 characters'')))
      else
     (case js_length email of Inl t \<Rightarrow> Inl t | Inr email_length \<Rightarrow>
     (case greater_than P email_length 255 of Inl t \<Rightarrow> Inl t | Inr email_long \<Rightarrow>
      if email_long
      then Inr (Some (res_json 400 (failure ''Validation failed''
                        ''Email must be less than 255 characters'')))
      else Inr None)))))"

text \<open>
  The third part is the insertion: the three arguments \<open>name.trim()\<close>,
  \<open>email.trim()\<close>, \<open>message.trim()\<close> are evaluated, then the query runs, then the
  answer reads \<open>rows[0]\<close>.
\<close>

definition post_insert :: "env \<Rightarrow> jsval \<Rightarrow> jsval \<Rightarrow> jsval \<Rightarrow> db \<Rightarrow> (thrown + response) \<times> db" where
  "post_insert E name email message d =
     (case js_trim name of Inl t \<Rightarrow> (Inl t, d) | Inr n \<Rightarrow>
     (case js_trim email of Inl t \<Rightarrow> (Inl t, d) | Inr e \<Rightarrow>
     (case js_trim message of Inl t \<Rightarrow> (Inl t, d) | Inr m \<Rightarrow>
     (case query_insert E n e m d of
        (Inl t, d') \<Rightarrow> (Inl t, d')
      | (Inr [], d') \<Rightarrow> (Inl (TypeError ''Cannot read properties of undefined (reading id)''), d')
      | (Inr (r # _), d') \<Rightarrow>
          (Inr (res_json 201 (JObj [(''success'', JBool True),
                                    (''message'', JStr ''Message created successfully''),
                                    (''data'', row_json r)])), d')))))"

text \<open>The \<open>try\<close> block: what it throws or the response it sends, and the table.\<close>

definition post_messages_try :: "platform \<Rightarrow> env \<Rightarrow> jsval \<Rightarrow> db \<Rightarrow> (thrown + response) \<times> db" where
  "post_messages_try P E b d =
     (case post_fields b of
        Inl t \<Rightarrow> (Inl t, d)
      | Inr (name, email, message) \<Rightarrow>
          (case post_validation P name email message of
             Inl t \<Rightarrow> (Inl t, d)
           | Inr (Some res) \<Rightarrow> (Inr res, d)
           | Inr None \<Rightarrow> post_insert E name email message d))"

text \<open>The handler: the \<open>catch\<close> block answers whatever was thrown.\<close>

definition post_messages :: "platform \<Rightarrow> env \<Rightarrow> jsval \<Rightarrow> db \<Rightarrow> response \<times> db" where
  "post_messages P E b d =
     (case post_messages_try P E b d of
        (Inr res, d') \<Rightarrow> (res, d')
      | (Inl error, d') \<Rightarrow>
          (res_json 500 (failure ''Internal server error'' ''Failed to create message''), d'))"

text \<open>\<open>DELETE /api/messages/:id\<close>.\<close>

definition delete_message :: "platform \<Rightarrow> env \<Rightarrow> string \<Rightarrow> db \<Rightarrow> response \<times> db" where
  "delete_message P E idtext d =
     (case query_delete P E idtext d of
        (Inr rowCount, d') \<Rightarrow>
          if rowCount = 0 then (res_json 404 (failure ''Not found'' ''Message not found''), d')
          else (res_json 200 (JObj [(''success'', JBool True),
                                    (''message'', JStr ''Message deleted successfully'')]), d')
      | (Inl error, d') \<Rightarrow>
          (res_json 500 (failure ''Internal server error'' ''Failed to delete message''), d'))"

text \<open>The handler of the routes that match nothing; \<open>url\<close> is \<open>req.originalUrl\<close>.\<close>

definition not_found :: "string \<Rightarrow> response" where
  "not_found url = res_json 404 (failure ''Not found'' (''Route '' @ url @ '' not found''))"

text \<open>The global error handler, for an error that a middleware passes on.\<close>

definition error_handler :: response where
  "error_handler = res_json 500 (failure ''Internal server error'' ''Something went wrong'')"

subsection \<open>The application\<close>

text \<open>
  A request after routing. \<open>MiddlewareError\<close> is a request on which a middleware before
  the routes fails (the body parser on a malformed body). The route \<open>GET /\<close> sends a
  constant object with status 200, never an error; its text has code units above 255 and
  the route is not part of the model.
\<close>

datatype request =
    Health
  | TestDb
  | CheckTables
  | ListMessages
  | GetMessage string
  | CreateMessage jsval
  | DeleteMessage string
  | NoRoute string
  | MiddlewareError

fun handle :: "platform \<Rightarrow> env \<Rightarrow> request \<Rightarrow> db \<Rightarrow> response \<times> db" where
  "handle P E Health d = (get_health E, d)"
| "handle P E TestDb d = (get_test_db E d, d)"
| "handle P E CheckTables d = (get_check_tables E, d)"
| "handle P E ListMessages d = (get_messages E d, d)"
| "handle P E (GetMessage idtext) d = (get_message P E idtext d, d)"
| "handle P E (CreateMessage b) d = post_messages P E b d"
| "handle P E (DeleteMessage idtext) d = delete_message P E idtext d"
| "handle P E (NoRoute url) d = (not_found url, d)"
| "handle P E MiddlewareError d = (error_handler, d)"

text \<open>Requests one after the other, each in its own environment.\<close>

fun run :: "platform \<Rightarrow> (env \<times> request) list \<Rightarrow> db \<Rightarrow> response list \<times> db" where
  "run P [] d = ([], d)"
| "run P ((E, q) # qs) d =
     (case handle P E q d of (res, d') \<Rightarrow>
        (case run P qs d' of (ress, d'') \<Rightarrow> (res # ress, d'')))"


subsection \<open>Reachable tables\<close>

text \<open>
  What every table that the handlers build from \<open>empty_db\<close> satisfies: the ids are
  distinct and below the next value of the sequence.
\<close>

definition wf_db :: "db \<Rightarrow> bool" where
  "wf_db d = (distinct (map msg_id (rows d)) \<and> list_all (\<lambda>r. msg_id r < id_seq d) (rows d))"

subsection \<open>A platform and environments to evaluate on\<close>

text \<open>
  The integer input of PostgreSQL up to release 15: white space, an optional sign,
  decimal digits, white space; the value within 32 bits.
\<close>

definition pg_space :: "char \<Rightarrow> bool" where
  "pg_space c = (of_char c \<in> {9, 10, 11, 12, 13, 32 :: nat})"

definition is_digit :: "char \<Rightarrow> bool" where
  "is_digit c = (48 \<le> (of_char c :: nat) \<and> (of_char c :: nat) \<le> 57)"

definition digits_value :: "string \<Rightarrow> nat" where
  "digits_value ds = foldl (\<lambda>a c. 10 * a + (of_char c - 48)) 0 ds"

definition int4in_decimal :: "string \<Rightarrow> int option" where
  "int4in_decimal s =
     (let t = rev (dropWhile pg_space (rev (dropWhile pg_space s)));
          (negative, ds) =
            (case t of
               [] \<Rightarrow> (False, [])
             | c # cs \<Rightarrow>
                 if c = CHR ''-'' then (True, cs)
                 else if c = CHR ''+'' then (False, cs)
                 else (False, t));
          v = (if negative then - int (digits_value ds) else int (digits_value ds))
      in if ds = [] \<or> \<not> list_all is_digit ds then None
         else if v < - 2147483648 \<or> 2147483647 < v then None
         else Some v)"

text \<open>
  The evaluations below compare numbers only and never ask \<open>js_gt\<close>; this platform
  answers it as for an operand that converts to NaN.
\<close>

definition decimal_platform :: platform where
  "decimal_platform = \<lparr>int4in = int4in_decimal, js_gt = (\<lambda>v q. Some False)\<rparr>"

text \<open>
  An environment with the database at work at the instant \<open>t\<close>, in which rows of equal
  \<open>created_at\<close> are listed in the order of their insertion; and one in which the
  queries are rejected with the message \<open>x\<close> under the mode \<open>mode\<close>.
\<close>

definition env_at :: "int \<Rightarrow> env" where
  "env_at t =
     \<lparr>node_env = Some ''production'', fault = None, db_time = t, tie_rank = (\<lambda>r. 0),
      iso_time = ''2025-01-01T00:00:00.000Z'', uptime = 1,
      pg_version = ''PostgreSQL 15.3 on x86_64-pc-linux-gnu'', tables = [], columns = []\<rparr>"

definition failing_env :: "string option \<Rightarrow> string \<Rightarrow> env" where
  "failing_env mode x = (env_at 0)\<lparr>node_env := mode, fault := Some x\<rparr>"

text \<open>The body \<open>{name: n, email: e, message: m}\<close> of three strings.\<close>

definition form :: "string \<Rightarrow> string \<Rightarrow> string \<Rightarrow> jsval" where
  "form n e m = JObj [(''name'', JStr n), (''email'', JStr e), (''message'', JStr m)]"

subsection \<open>The shape of an error answer\<close>

text \<open>
  \<open>{success: false, error: string, message: string}\<close>: exactly these three keys, with
  values of these types.
\<close>

definition error_shape :: "jsval \<Rightarrow> bool" where
  "error_shape v =
     (case v of
        JObj kvs \<Rightarrow>
          distinct (map fst kvs) \<and>
          set (map fst kvs) = {''success'', ''error'', ''message''} \<and>
          map_of kvs ''success'' = Some (JBool False) \<and>
          (case map_of kvs ''error'' of Some (JStr e) \<Rightarrow> True | _ \<Rightarrow> False) \<and>
          (case map_of kvs ''message'' of Some (JStr m) \<Rightarrow> True | _ \<Rightarrow> False)
      | _ \<Rightarrow> False)"


text \<open>A table of two rows.\<close>

definition two_rows :: db where
  "two_rows =
     \<lparr>rows = [\<lparr>msg_id = 1, msg_name = ''Ada'', msg_email = ''ada@example.com'',
                 msg_message = ''hello'', created_at = 10, updated_at = 10\<rparr>,
               \<lparr>msg_id = 2, msg_name = ''Bob'', msg_email = ''bob@example.com'',
                 msg_message = ''hi'', created_at = 20, updated_at = 20\<rparr>],
      id_seq = 3\<rparr>"

subsection \<open>Conditions on a field of the body\<close>

fun is_string :: "jsval \<Rightarrow> bool" where
  "is_string (JStr s) = True"
| "is_string v = False"

text \<open>The condition \<open>v.length > 255\<close> of the handler is evaluated and holds.\<close>

definition longer_than_255 :: "platform \<Rightarrow> jsval \<Rightarrow> bool" where
  "longer_than_255 P v =
     (case js_length v of
        Inl t \<Rightarrow> False
      | Inr l \<Rightarrow> greater_than P l 255 = Inr True)"

subsection \<open>The two answers with data\<close>

text \<open>
  The answer of \<open>POST /api/messages\<close> for the new row \<open>r\<close>, and the answer of
  \<open>GET /api/messages\<close> for the rows \<open>ms\<close>, as the handlers above build them.
\<close>

abbreviation created :: "message \<Rightarrow> response" where
  "created r \<equiv>
     res_json 201 (JObj [(''success'', JBool True),
                         (''message'', JStr ''Message created successfully''),
                         (''data'', row_json r)])"

abbreviation listing :: "message list \<Rightarrow> response" where
  "listing ms \<equiv>
     res_json 200 (JObj [(''success'', JBool True),
                         (''count'', JNum (Fin (of_nat (length ms)))),
                         (''data'', JArr (map row_json ms))])"

fun is_create :: "request \<Rightarrow> bool" where
  "is_create (CreateMessage b) = True"
| "is_create q = False"

section \<open>Properties\<close>

subsection \<open>Auxiliary facts\<close>

lemma to_json_failure: "to_json (failure e m) = failure e m"
  by (simp add: failure_def)

lemma to_json_row_json: "to_json (row_json r) = row_json r"
  by (simp add: row_json_def)




text \<open>The validation answers with 400 only, the insertion with 201 only.\<close>

lemma post_validation_400:
  "post_validation P name email message = Inr (Some res) \<Longrightarrow> status res = 400"
  by (auto simp: post_validation_def res_json_def split: if_splits sum.splits)

lemma post_insert_201:
  "post_insert E name email message d = (Inr res, d') \<Longrightarrow> status res = 201"
  by (auto simp: post_insert_def res_json_def split: sum.splits prod.splits list.splits)

lemma post_try_400:
  assumes "post_messages_try P E b d = (Inr res, d')" "status res = 400"
  shows "d' = d \<and> post_messages_try P E' b d = (Inr res, d)"
proof (cases "post_fields b")
  case (Inl t)
  with assms show ?thesis by (simp add: post_messages_try_def)
next
  case (Inr f)
  obtain name email message where f: "f = (name, email, message)" by (cases f) auto
  show ?thesis
  proof (cases "post_validation P name email message")
    case (Inl t)
    with assms Inr f show ?thesis by (simp add: post_messages_try_def)
  next
    case v: (Inr o')
    show ?thesis
    proof (cases o')
      case None
      with assms Inr f v have "post_insert E name email message d = (Inr res, d')"
        by (simp add: post_messages_try_def)
      then have "status res = 201" by (rule post_insert_201)
      with assms show ?thesis by simp
    next
      case (Some r)
      with assms Inr f v show ?thesis by (simp add: post_messages_try_def)
    qed
  qed
qed

lemma post_messages_400:
  assumes "status (fst (post_messages P E b d)) = 400"
  shows "snd (post_messages P E b d) = d \<and> post_messages P E' b d = post_messages P E b d"
proof (cases "post_messages_try P E b d")
  case (Pair x d')
  show ?thesis
  proof (cases x)
    case (Inl t)
    with Pair assms show ?thesis by (simp add: post_messages_def res_json_def)
  next
    case (Inr res)
    with Pair assms have "status res = 400" by (simp add: post_messages_def)
    with Pair Inr have "d' = d \<and> post_messages_try P E' b d = (Inr res, d)"
      using post_try_400 by blast
    with Pair Inr show ?thesis by (simp add: post_messages_def)
  qed
qed

subsection \<open>Validation of a new message\<close>

text \<open>
  C1. The claim: \<open>POST /api/messages\<close> answers 400 exactly when one of name, email and
  message is missing or empty after trimming, or name or email is longer than 255; in
  particular a field of white space only is rejected. The handler tests the fields
  before it trims them: a name of three spaces passes the test for presence and is
  stored as the empty string, with status 201.
\<close>

theorem whitespace_name_is_created:
  "post_messages decimal_platform (env_at 5) (form ''   '' ''a@b.com'' ''hi'') empty_db =
     (res_json 201
        (JObj [(''success'', JBool True),
               (''message'', JStr ''Message created successfully''),
               (''data'', row_json \<lparr>msg_id = 1, msg_name = [], msg_email = ''a@b.com'',
                                     msg_message = ''hi'', created_at = 5, updated_at = 5\<rparr>)]),
      \<lparr>rows = [\<lparr>msg_id = 1, msg_name = [], msg_email = ''a@b.com'',
                 msg_message = ''hi'', created_at = 5, updated_at = 5\<rparr>],
       id_seq = 2\<rparr>)"
  by code_simp

text \<open>
  C6. When \<open>POST /api/messages\<close> answers with status 400, the table after the request
  is the table before it, so a listing is the same before and after; and the outcome is
  the same in every environment: no query has run, since neither a rejection by the
  database nor its clock has a part in the answer.
\<close>

theorem validation_error_without_database:
  assumes "status (fst (post_messages P E b d)) = 400"
  shows "snd (post_messages P E b d) = d
       \<and> (\<forall>E'. post_messages P E' b d = post_messages P E b d)
       \<and> (\<forall>E'. get_messages E' (snd (post_messages P E b d)) = get_messages E' d)"
  using post_messages_400 [OF assms] by simp

theorem validation_error_without_database_witness:
  "status (fst (post_messages decimal_platform (env_at 0) (form [] ''a@b.com'' ''hi'') empty_db)) = 400
   \<and> snd (post_messages decimal_platform (env_at 0) (form [] ''a@b.com'' ''hi'') empty_db) = empty_db
   \<and> post_messages decimal_platform (failing_env None ''connection lost'') (form [] ''a@b.com'' ''hi'') empty_db
       = post_messages decimal_platform (env_at 0) (form [] ''a@b.com'' ''hi'') empty_db"
proof -
  have h: "status (fst (post_messages decimal_platform (env_at 0) (form [] ''a@b.com'' ''hi'') empty_db)) = 400"
    by code_simp
  from validation_error_without_database [OF h] show ?thesis using h by blast
qed

lemma filter_unique:
  "distinct (map f xs) \<Longrightarrow> r \<in> set xs \<Longrightarrow> filter (\<lambda>x. f x = f r) xs = [r]"
proof (induction xs)
  case Nil
  then show ?case by simp
next
  case (Cons x xs)
  show ?case
  proof (cases "x = r")
    case True
    with Cons.prems have "f r \<notin> f ` set xs" by simp
    then have "\<forall>y \<in> set xs. f y \<noteq> f r" by (metis imageI)
    then have "filter (\<lambda>x. f x = f r) xs = []" by (simp add: filter_empty_conv)
    with True show ?thesis by simp
  next
    case False
    with Cons.prems have "r \<in> set xs" "f x \<noteq> f r" by auto
    with Cons show ?thesis by simp
  qed
qed

lemma filter_others:
  "distinct (map f xs) \<Longrightarrow> r \<in> set xs \<Longrightarrow> filter (\<lambda>x. f x \<noteq> f r) xs = remove1 r xs"
proof (induction xs)
  case Nil
  then show ?case by simp
next
  case (Cons x xs)
  show ?case
  proof (cases "x = r")
    case True
    with Cons.prems have "f r \<notin> f ` set xs" by simp
    then have "\<forall>y \<in> set xs. f y \<noteq> f r" by (metis imageI)
    then have "filter (\<lambda>x. f x \<noteq> f r) xs = xs" by (simp add: filter_id_conv)
    with True show ?thesis by simp
  next
    case False
    with Cons.prems have "r \<in> set xs" "f x \<noteq> f r" by auto
    with Cons False show ?thesis by simp
  qed
qed

lemma filter_none: "i \<notin> f ` set xs \<Longrightarrow> filter (\<lambda>x. f x = i) xs = []"
  by (auto simp: filter_empty_conv)

lemma filter_all: "i \<notin> f ` set xs \<Longrightarrow> filter (\<lambda>x. f x \<noteq> i) xs = xs"
  by (auto simp: filter_id_conv)

subsection \<open>Reading and deleting by id\<close>

text \<open>
  C9. An id that the database does not accept as an integer goes into the query as it is;
  the query fails, and both \<open>GET /api/messages/:id\<close> and
  \<open>DELETE /api/messages/:id\<close> answer with status 500, not 404, and leave the table
  as it is.
\<close>

theorem non_integer_id_is_500:
  assumes "int4in P idtext = None"
  shows "get_message P E idtext d
           = res_json 500 (failure ''Internal server error'' ''Failed to fetch message'')
       \<and> delete_message P E idtext d
           = (res_json 500 (failure ''Internal server error'' ''Failed to delete message''), d)"
  using assms
  by (simp add: get_message_def delete_message_def query_select_by_id_def query_delete_def
           split: option.splits)

theorem non_integer_id_is_500_witness:
  "int4in decimal_platform ''abc'' = None
   \<and> get_message decimal_platform (env_at 0) ''abc'' two_rows
       = res_json 500 (failure ''Internal server error'' ''Failed to fetch message'')
   \<and> delete_message decimal_platform (env_at 0) ''abc'' two_rows
       = (res_json 500 (failure ''Internal server error'' ''Failed to delete message''), two_rows)"
proof -
  have h: "int4in decimal_platform ''abc'' = None" by code_simp
  from non_integer_id_is_500 [OF h] show ?thesis using h by blast
qed

text \<open>
  C4, as stated for every id, fails on an id that is no integer: no row has the id
  \<open>abc\<close>, and the answer is 500, not 404.
\<close>

theorem get_by_id_non_integer_counterexample:
  "rows empty_db = []
   \<and> get_message decimal_platform (env_at 0) ''abc'' empty_db
       = \<lparr>status = 500,
          body = JObj [(''success'', JBool False), (''error'', JStr ''Internal server error''),
                       (''message'', JStr ''Failed to fetch message'')]\<rparr>"
  by code_simp

text \<open>
  C4, amended. For an id that the database accepts as the integer \<open>i\<close>, with the
  database at work: when a row with the id \<open>i\<close> is stored, \<open>GET /api/messages/:id\<close>
  answers 200 with exactly that row; when none is stored, it answers 404.
\<close>

theorem get_by_id_integer:
  assumes "int4in P idtext = Some i" "fault E = None" "wf_db d"
  shows "(\<forall>r \<in> set (rows d). msg_id r = i \<longrightarrow>
            get_message P E idtext d
              = res_json 200 (JObj [(''success'', JBool True), (''data'', row_json r)]))
       \<and> (i \<notin> msg_id ` set (rows d) \<longrightarrow>
            get_message P E idtext d = res_json 404 (failure ''Not found'' ''Message not found''))"
proof (intro conjI ballI impI)
  fix r assume "r \<in> set (rows d)" "msg_id r = i"
  with assms(3) have "db_select_by_id i d = [r]"
    unfolding db_select_by_id_def wf_db_def using filter_unique [of msg_id "rows d" r] by auto
  with assms show "get_message P E idtext d
              = res_json 200 (JObj [(''success'', JBool True), (''data'', row_json r)])"
    by (simp add: get_message_def query_select_by_id_def)
next
  assume "i \<notin> msg_id ` set (rows d)"
  then have "db_select_by_id i d = []"
    unfolding db_select_by_id_def by (rule filter_none)
  with assms show "get_message P E idtext d = res_json 404 (failure ''Not found'' ''Message not found'')"
    by (simp add: get_message_def query_select_by_id_def)
qed

theorem get_by_id_integer_witness:
  "get_message decimal_platform (env_at 0) ''2'' two_rows
     = res_json 200
         (JObj [(''success'', JBool True),
                (''data'', row_json \<lparr>msg_id = 2, msg_name = ''Bob'', msg_email = ''bob@example.com'',
                                     msg_message = ''hi'', created_at = 20, updated_at = 20\<rparr>)])
   \<and> get_message decimal_platform (env_at 0) ''7'' two_rows
       = res_json 404 (failure ''Not found'' ''Message not found'')"
proof -
  let ?r = "\<lparr>msg_id = 2, msg_name = ''Bob'', msg_email = ''bob@example.com'',
             msg_message = ''hi'', created_at = 20, updated_at = 20\<rparr>"
  have p2: "int4in decimal_platform ''2'' = Some 2" by code_simp
  have p7: "int4in decimal_platform ''7'' = Some 7" by code_simp
  have up: "fault (env_at 0) = None" by code_simp
  have wf: "wf_db two_rows" by code_simp
  have r: "?r \<in> set (rows two_rows)" "msg_id ?r = 2" by (simp_all add: two_rows_def)
  have no: "7 \<notin> msg_id ` set (rows two_rows)" by (simp add: two_rows_def)
  from get_by_id_integer [OF p2 up wf] r get_by_id_integer [OF p7 up wf] no
  show ?thesis by blast
qed

text \<open>
  C5, as stated for every absent id, fails on an id that is no integer: the answer to
  \<open>DELETE /api/messages/abc\<close> is 500, not 404.
\<close>

theorem delete_non_integer_counterexample:
  "delete_message decimal_platform (env_at 0) ''abc'' two_rows
     = (\<lparr>status = 500,
         body = JObj [(''success'', JBool False), (''error'', JStr ''Internal server error''),
                      (''message'', JStr ''Failed to delete message'')]\<rparr>,
        two_rows)"
  by code_simp

text \<open>
  C5, amended. For an id that the database accepts as the integer \<open>i\<close>, with the
  database at work: when a row with the id \<open>i\<close> is stored,
  \<open>DELETE /api/messages/:id\<close> answers 200 and the table loses exactly that row, after
  which reading the id answers 404 and deleting it again answers 404 and changes nothing;
  when no row has the id, the answer is 404 and the table is unchanged.
\<close>

theorem delete_by_id_integer:
  assumes "int4in P idtext = Some i" "fault E = None" "fault E' = None" "wf_db d"
  shows "(\<forall>r \<in> set (rows d). msg_id r = i \<longrightarrow>
            delete_message P E idtext d
              = (res_json 200 (JObj [(''success'', JBool True),
                                     (''message'', JStr ''Message deleted successfully'')]),
                 d\<lparr>rows := remove1 r (rows d)\<rparr>)
          \<and> get_message P E' idtext (d\<lparr>rows := remove1 r (rows d)\<rparr>)
              = res_json 404 (failure ''Not found'' ''Message not found'')
          \<and> delete_message P E' idtext (d\<lparr>rows := remove1 r (rows d)\<rparr>)
              = (res_json 404 (failure ''Not found'' ''Message not found''),
                 d\<lparr>rows := remove1 r (rows d)\<rparr>))
       \<and> (i \<notin> msg_id ` set (rows d) \<longrightarrow>
            delete_message P E idtext d
              = (res_json 404 (failure ''Not found'' ''Message not found''), d))"
proof (intro conjI ballI impI)
  assume "i \<notin> msg_id ` set (rows d)"
  then have "filter (\<lambda>r. msg_id r = i) (rows d) = []" "filter (\<lambda>r. msg_id r \<noteq> i) (rows d) = rows d"
    by (rule filter_none, rule filter_all)
  with assms show "delete_message P E idtext d
              = (res_json 404 (failure ''Not found'' ''Message not found''), d)"
    by (simp add: delete_message_def query_delete_def db_delete_def)
next
  fix r assume r: "r \<in> set (rows d)" "msg_id r = i"
  let ?d = "d\<lparr>rows := remove1 r (rows d)\<rparr>"
  from assms(4) have dist: "distinct (map msg_id (rows d))" by (simp add: wf_db_def)
  from dist r have one: "filter (\<lambda>x. msg_id x = i) (rows d) = [r]"
    using filter_unique [of msg_id "rows d" r] by simp
  from dist r have rest: "filter (\<lambda>x. msg_id x \<noteq> i) (rows d) = remove1 r (rows d)"
    using filter_others [of msg_id "rows d" r] by simp
  from dist have "distinct (rows d)" by (rule distinct_map [THEN iffD1, THEN conjunct1])
  have gone: "i \<notin> msg_id ` set (rows ?d)"
  proof
    assume "i \<in> msg_id ` set (rows ?d)"
    then obtain x where "x \<in> set (remove1 r (rows d))" "msg_id x = i" by auto
    then have "x \<in> set (filter (\<lambda>x. msg_id x \<noteq> i) (rows d))" using rest by simp
    with \<open>msg_id x = i\<close> show False by simp
  qed
  show "delete_message P E idtext d
              = (res_json 200 (JObj [(''success'', JBool True),
                                     (''message'', JStr ''Message deleted successfully'')]), ?d)"
    using assms one rest by (simp add: delete_message_def query_delete_def db_delete_def)
  from gone have "db_select_by_id i ?d = []"
    unfolding db_select_by_id_def by (rule filter_none)
  with assms show "get_message P E' idtext ?d = res_json 404 (failure ''Not found'' ''Message not found'')"
    by (simp add: get_message_def query_select_by_id_def)
  from gone have "filter (\<lambda>r. msg_id r = i) (rows ?d) = []" "filter (\<lambda>r. msg_id r \<noteq> i) (rows ?d) = rows ?d"
    by (rule filter_none, rule filter_all)
  with assms show "delete_message P E' idtext ?d
              = (res_json 404 (failure ''Not found'' ''Message not found''), ?d)"
    by (simp add: delete_message_def query_delete_def db_delete_def)
qed


theorem delete_by_id_integer_witness:
  "delete_message decimal_platform (env_at 0) ''2'' two_rows
     = (res_json 200 (JObj [(''success'', JBool True),
                            (''message'', JStr ''Message deleted successfully'')]),
        \<lparr>rows = [\<lparr>msg_id = 1, msg_name = ''Ada'', msg_email = ''ada@example.com'',
                   msg_message = ''hello'', created_at = 10, updated_at = 10\<rparr>],
         id_seq = 3\<rparr>)
   \<and> get_message decimal_platform (env_at 1) ''2''
        \<lparr>rows = [\<lparr>msg_id = 1, msg_name = ''Ada'', msg_email = ''ada@example.com'',
                   msg_message = ''hello'', created_at = 10, updated_at = 10\<rparr>],
         id_seq = 3\<rparr>
       = res_json 404 (failure ''Not found'' ''Message not found'')
   \<and> delete_message decimal_platform (env_at 1) ''2''
        \<lparr>rows = [\<lparr>msg_id = 1, msg_name = ''Ada'', msg_email = ''ada@example.com'',
                   msg_message = ''hello'', created_at = 10, updated_at = 10\<rparr>],
         id_seq = 3\<rparr>
       = (res_json 404 (failure ''Not found'' ''Message not found''),
          \<lparr>rows = [\<lparr>msg_id = 1, msg_name = ''Ada'', msg_email = ''ada@example.com'',
                   msg_message = ''hello'', created_at = 10, updated_at = 10\<rparr>],
           id_seq = 3\<rparr>)
   \<and> delete_message decimal_platform (env_at 0) ''7'' two_rows
       = (res_json 404 (failure ''Not found'' ''Message not found''), two_rows)"
proof -
  let ?r = "\<lparr>msg_id = 2, msg_name = ''Bob'', msg_email = ''bob@example.com'',
             msg_message = ''hi'', created_at = 20, updated_at = 20\<rparr>"
  have p2: "int4in decimal_platform ''2'' = Some 2" by code_simp
  have p7: "int4in decimal_platform ''7'' = Some 7" by code_simp
  have up: "fault (env_at 0) = None" "fault (env_at 1) = None" by code_simp+
  have wf: "wf_db two_rows" by code_simp
  have r: "?r \<in> set (rows two_rows)" "msg_id ?r = 2" by (simp_all add: two_rows_def)
  have no: "7 \<notin> msg_id ` set (rows two_rows)" by (simp add: two_rows_def)
  have d: "two_rows\<lparr>rows := remove1 ?r (rows two_rows)\<rparr>
             = \<lparr>rows = [\<lparr>msg_id = 1, msg_name = ''Ada'', msg_email = ''ada@example.com'',
                   msg_message = ''hello'', created_at = 10, updated_at = 10\<rparr>],
         id_seq = 3\<rparr>" by (simp add: two_rows_def)
  from delete_by_id_integer [OF p2 up wf] r have
    "delete_message decimal_platform (env_at 0) ''2'' two_rows
              = (res_json 200 (JObj [(''success'', JBool True),
                                     (''message'', JStr ''Message deleted successfully'')]),
                 two_rows\<lparr>rows := remove1 ?r (rows two_rows)\<rparr>)
          \<and> get_message decimal_platform (env_at 1) ''2'' (two_rows\<lparr>rows := remove1 ?r (rows two_rows)\<rparr>)
              = res_json 404 (failure ''Not found'' ''Message not found'')
          \<and> delete_message decimal_platform (env_at 1) ''2'' (two_rows\<lparr>rows := remove1 ?r (rows two_rows)\<rparr>)
              = (res_json 404 (failure ''Not found'' ''Message not found''),
                 two_rows\<lparr>rows := remove1 ?r (rows two_rows)\<rparr>)"
    by blast
  moreover from delete_by_id_integer [OF p7 up wf] no have
    "delete_message decimal_platform (env_at 0) ''7'' two_rows
       = (res_json 404 (failure ''Not found'' ''Message not found''), two_rows)"
    by blast
  ultimately show ?thesis unfolding d by blast
qed

subsection \<open>Fields that are not strings\<close>

lemma js_trim_non_string: "\<not> is_string v \<Longrightarrow> \<exists>t. js_trim v = Inl t"
  by (cases v) simp_all

lemma js_trim_string: "is_string v \<Longrightarrow> \<exists>s. js_trim v = Inr s"
  by (cases v) simp_all

lemma post_insert_non_string:
  assumes "\<not> is_string name \<or> \<not> is_string email \<or> \<not> is_string message"
  shows "\<exists>t. post_insert E name email message d = (Inl t, d)"
proof (cases "is_string name")
  case False
  then obtain t where "js_trim name = Inl t" using js_trim_non_string by blast
  then show ?thesis by (simp add: post_insert_def)
next
  case n: True
  then obtain n' where n': "js_trim name = Inr n'" using js_trim_string by blast
  show ?thesis
  proof (cases "is_string email")
    case False
    then obtain t where "js_trim email = Inl t" using js_trim_non_string by blast
    with n' show ?thesis by (simp add: post_insert_def)
  next
    case True
    then obtain e' where e': "js_trim email = Inr e'" using js_trim_string by blast
    from assms n True have "\<not> is_string message" by simp
    then obtain t where "js_trim message = Inl t" using js_trim_non_string by blast
    with n' e' show ?thesis by (simp add: post_insert_def)
  qed
qed

lemma post_validation_passes:
  assumes "truthy name" "truthy email" "truthy message"
      and "\<not> longer_than_255 P name" "\<not> longer_than_255 P email"
  shows "post_validation P name email message = Inr None
       \<or> (\<exists>t. post_validation P name email message = Inl t)"
  using assms
  by (auto simp: post_validation_def longer_than_255_def split: sum.splits)

text \<open>
  C10, as stated for every body with some truthy field that is no string, fails: a name
  that is an array of 256 elements passes the test for presence, and
  \<open>name.length > 255\<close> holds, so the answer is 400, not 500.
\<close>

theorem long_array_name_counterexample:
  "post_messages decimal_platform (env_at 0)
     (JObj [(''name'', JArr (replicate 256 JNull)), (''email'', JStr ''a@b.com''),
            (''message'', JStr ''hi'')])
     empty_db
   = (\<lparr>status = 400,
       body = JObj [(''success'', JBool False), (''error'', JStr ''Validation failed''),
                    (''message'', JStr ''Name must be less than 255 characters'')]\<rparr>,
      empty_db)"
  by code_simp

text \<open>
  C10, amended. When the three fields are truthy, neither \<open>name.length > 255\<close> nor
  \<open>email.length > 255\<close> holds, and some field is not a string, then
  \<open>POST /api/messages\<close> answers 500 through its \<open>catch\<close> block and the table is
  unchanged: the validation passes (or the comparison throws) and \<open>trim\<close> throws
  before the query.
\<close>

theorem non_string_field_is_500:
  assumes "post_fields b = Inr (name, email, message)"
      and "truthy name" "truthy email" "truthy message"
      and "\<not> longer_than_255 P name" "\<not> longer_than_255 P email"
      and "\<not> is_string name \<or> \<not> is_string email \<or> \<not> is_string message"
  shows "post_messages P E b d
           = (res_json 500 (failure ''Internal server error'' ''Failed to create message''), d)"
proof -
  from assms(2-6) consider "post_validation P name email message = Inr None"
    | t where "post_validation P name email message = Inl t"
    using post_validation_passes by blast
  then have "\<exists>t. post_messages_try P E b d = (Inl t, d)"
  proof cases
    case 1
    from assms(7) obtain t where "post_insert E name email message d = (Inl t, d)"
      using post_insert_non_string by blast
    with 1 assms(1) show ?thesis by (simp add: post_messages_try_def)
  next
    case 2
    with assms(1) show ?thesis by (simp add: post_messages_try_def)
  qed
  then show ?thesis by (auto simp: post_messages_def)
qed

theorem non_string_field_is_500_witness:
  "post_fields (JObj [(''name'', JNum (Fin 5)), (''email'', JStr ''a@b.com''), (''message'', JBool True)])
     = Inr (JNum (Fin 5), JStr ''a@b.com'', JBool True)
   \<and> post_messages decimal_platform (env_at 0)
        (JObj [(''name'', JNum (Fin 5)), (''email'', JStr ''a@b.com''), (''message'', JBool True)])
        empty_db
       = (res_json 500 (failure ''Internal server error'' ''Failed to create message''), empty_db)"
proof -
  have f: "post_fields (JObj [(''name'', JNum (Fin 5)), (''email'', JStr ''a@b.com''), (''message'', JBool True)])
     = Inr (JNum (Fin 5), JStr ''a@b.com'', JBool True)" by code_simp
  have t: "truthy (JNum (Fin 5))" "truthy (JStr ''a@b.com'')" "truthy (JBool True)" by simp_all
  have l: "\<not> longer_than_255 decimal_platform (JNum (Fin 5))"
          "\<not> longer_than_255 decimal_platform (JStr ''a@b.com'')"
    by (simp_all add: longer_than_255_def)
  have s: "\<not> is_string (JNum (Fin 5)) \<or> \<not> is_string (JStr ''a@b.com'') \<or> \<not> is_string (JBool True)"
    by simp
  from non_string_field_is_500 [OF f t l s] f show ?thesis by blast
qed

subsection \<open>Error answers\<close>

lemma error_shape_failure: "error_shape (failure e m)"
  by (auto simp: error_shape_def failure_def)

lemma post_validation_body:
  "post_validation P name email message = Inr (Some res) \<Longrightarrow> error_shape (body res)"
  by (auto simp: post_validation_def res_json_def to_json_failure error_shape_failure
           split: if_splits sum.splits)

lemma post_messages_answers:
  "status (fst (post_messages P E b d)) = 201
   \<or> error_shape (body (fst (post_messages P E b d)))"
proof (cases "post_messages_try P E b d")
  case (Pair x d')
  show ?thesis
  proof (cases x)
    case (Inl t)
    with Pair show ?thesis
      by (simp add: post_messages_def res_json_def to_json_failure error_shape_failure)
  next
    case (Inr res)
    show ?thesis
    proof (cases "post_fields b")
      case (Inl t)
      with Pair Inr show ?thesis by (simp add: post_messages_try_def)
    next
      case f: (Inr f)
      obtain name email message where ff: "f = (name, email, message)" by (cases f) auto
      show ?thesis
      proof (cases "post_validation P name email message")
        case (Inl t)
        with Pair Inr f ff show ?thesis by (simp add: post_messages_try_def)
      next
        case v: (Inr o')
        show ?thesis
        proof (cases o')
          case None
          with Pair Inr f ff v have "post_insert E name email message d = (Inr res, d')"
            by (simp add: post_messages_try_def)
          then have "status res = 201" by (rule post_insert_201)
          with Pair Inr show ?thesis by (simp add: post_messages_def)
        next
          case (Some r)
          with v have "error_shape (body r)" using post_validation_body by blast
          moreover from Some Pair Inr f ff v have "res = r" by (simp add: post_messages_try_def)
          ultimately show ?thesis using Pair Inr by (simp add: post_messages_def)
        qed
      qed
    qed
  qed
qed

text \<open>
  C7, as stated for every error answer, fails: under \<open>NODE_ENV=development\<close> the
  answer of \<open>GET /api/messages\<close> to a failure of the database has a fourth key,
  \<open>details\<close>.
\<close>

theorem details_key_counterexample:
  "get_messages (failing_env (Some ''development'') ''connection lost'') empty_db
     = \<lparr>status = 500,
        body = JObj [(''success'', JBool False),
                     (''error'', JStr ''Internal server error''),
                     (''message'', JStr ''Failed to fetch messages''),
                     (''details'', JStr ''connection lost'')]\<rparr>
   \<and> \<not> error_shape
          (body (get_messages (failing_env (Some ''development'') ''connection lost'') empty_db))"
  by code_simp

text \<open>
  C7, amended. Every answer with a status of 400 or more, of every route but
  \<open>/api/check-tables\<close>, is an object with exactly the keys \<open>success\<close>, \<open>error\<close>
  and \<open>message\<close>, where \<open>success\<close> is \<open>false\<close> and the other two are strings;
  except that the answer of \<open>GET /api/messages\<close> under \<open>NODE_ENV=development\<close> has
  the string \<open>details\<close> as a fourth key.
\<close>

theorem error_answer_shape:
  assumes "400 \<le> status (fst (handle P E q d))" "q \<noteq> CheckTables"
  shows "if q = ListMessages \<and> node_env E = Some ''development''
         then \<exists>x. body (fst (handle P E q d))
                = JObj [(''success'', JBool False),
                        (''error'', JStr ''Internal server error''),
                        (''message'', JStr ''Failed to fetch messages''),
                        (''details'', JStr x)]
         else error_shape (body (fst (handle P E q d)))"
proof (cases q)
  case Health
  with assms show ?thesis by (simp add: get_health_def res_json_def)
next
  case TestDb
  with assms show ?thesis
    by (auto simp: get_test_db_def res_json_def error_shape_def split: option.splits)
next
  case CheckTables
  with assms show ?thesis by simp
next
  case ListMessages
  with assms show ?thesis
    by (auto simp: get_messages_def query_select_all_def res_json_def error_shape_def
             split: option.splits)
next
  case (GetMessage i)
  with assms show ?thesis
    by (auto simp: get_message_def res_json_def to_json_failure error_shape_failure
             split: sum.splits list.splits)
next
  case (CreateMessage b)
  with assms have "status (fst (post_messages P E b d)) \<noteq> 201" by simp
  then have "error_shape (body (fst (post_messages P E b d)))"
    using post_messages_answers by blast
  with CreateMessage show ?thesis by simp
next
  case (DeleteMessage i)
  with assms show ?thesis
    by (auto simp: delete_message_def res_json_def to_json_failure error_shape_failure
             split: sum.splits prod.splits if_splits)
next
  case (NoRoute url)
  then show ?thesis by (simp add: not_found_def res_json_def to_json_failure error_shape_failure)
next
  case MiddlewareError
  then show ?thesis by (simp add: error_handler_def res_json_def to_json_failure error_shape_failure)
qed

theorem error_answer_shape_witness:
  "400 \<le> status (fst (handle decimal_platform (env_at 0) (DeleteMessage ''abc'') two_rows))
   \<and> error_shape (body (fst (handle decimal_platform (env_at 0) (DeleteMessage ''abc'') two_rows)))
   \<and> 400 \<le> status (fst (handle decimal_platform (failing_env (Some ''development'') ''connection lost'')
                          ListMessages two_rows))
   \<and> (\<exists>x. body (fst (handle decimal_platform (failing_env (Some ''development'') ''connection lost'')
                          ListMessages two_rows))
            = JObj [(''success'', JBool False),
                    (''error'', JStr ''Internal server error''),
                    (''message'', JStr ''Failed to fetch messages''),
                    (''details'', JStr x)])"
proof -
  have a: "400 \<le> status (fst (handle decimal_platform (env_at 0) (DeleteMessage ''abc'') two_rows))"
    by code_simp
  have b: "400 \<le> status (fst (handle decimal_platform (failing_env (Some ''development'') ''connection lost'')
                          ListMessages two_rows))"
    by code_simp
  have m: "node_env (failing_env (Some ''development'') ''connection lost'') = Some ''development''"
    by code_simp
  have "error_shape (body (fst (handle decimal_platform (env_at 0) (DeleteMessage ''abc'') two_rows)))"
    using error_answer_shape [OF a] by simp
  moreover have "\<exists>x. body (fst (handle decimal_platform (failing_env (Some ''development'') ''connection lost'')
                          ListMessages two_rows))
            = JObj [(''success'', JBool False),
                    (''error'', JStr ''Internal server error''),
                    (''message'', JStr ''Failed to fetch messages''),
                    (''details'', JStr x)]"
    using error_answer_shape [OF b] m by simp
  ultimately show ?thesis using a b by blast
qed

subsection \<open>Failures of the database\<close>

lemma post_insert_fault:
  assumes "fault E = Some x"
  shows "\<exists>t. post_insert E name email message d = (Inl t, d)"
  using assms by (simp add: post_insert_def query_insert_def split: sum.splits)

lemma post_messages_fault:
  assumes "fault E = Some x" "status (fst (post_messages P E b d)) \<noteq> 400"
  shows "post_messages P E b d
           = (res_json 500 (failure ''Internal server error'' ''Failed to create message''), d)"
proof -
  have "\<exists>t. post_messages_try P E b d = (Inl t, d)"
  proof (cases "post_fields b")
    case (Inl t)
    then show ?thesis by (simp add: post_messages_try_def)
  next
    case (Inr f)
    obtain name email message where f: "f = (name, email, message)" by (cases f) auto
    show ?thesis
    proof (cases "post_validation P name email message")
      case (Inl t)
      with Inr f show ?thesis by (simp add: post_messages_try_def)
    next
      case v: (Inr o')
      show ?thesis
      proof (cases o')
        case None
        from assms(1) obtain t where "post_insert E name email message d = (Inl t, d)"
          using post_insert_fault by blast
        with None Inr f v show ?thesis by (simp add: post_messages_try_def)
      next
        case (Some r)
        with v have "status r = 400" using post_validation_400 by blast
        moreover from Some Inr f v have "post_messages_try P E b d = (Inr r, d)"
          by (simp add: post_messages_try_def)
        ultimately have "status (fst (post_messages P E b d)) = 400"
          by (simp add: post_messages_def)
        with assms(2) show ?thesis by simp
      qed
    qed
  qed
  then show ?thesis by (auto simp: post_messages_def)
qed

text \<open>
  C8, amended. When a query is rejected with the message \<open>x\<close>, every route that
  queries the database answers 500. \<open>GET /api/messages\<close> sends the fixed error and
  message, and \<open>x\<close> as \<open>details\<close> exactly when \<open>NODE_ENV\<close> is
  \<open>development\<close>. \<open>GET /api/messages/:id\<close>, \<open>DELETE /api/messages/:id\<close> and
  \<open>POST /api/messages\<close> (when the body passes the validation) send a fixed error and
  message in every mode, never \<open>x\<close>. The routes \<open>/api/test-db\<close> and
  \<open>/api/check-tables\<close> send \<open>x\<close> in every mode.
\<close>

theorem storage_failure_answers:
  assumes "fault E = Some x"
  shows "get_messages E d
           = \<lparr>status = 500,
              body = (if node_env E = Some ''development''
                      then JObj [(''success'', JBool False),
                                 (''error'', JStr ''Internal server error''),
                                 (''message'', JStr ''Failed to fetch messages''),
                                 (''details'', JStr x)]
                      else failure ''Internal server error'' ''Failed to fetch messages'')\<rparr>
       \<and> get_message P E idtext d
           = \<lparr>status = 500, body = failure ''Internal server error'' ''Failed to fetch message''\<rparr>
       \<and> delete_message P E idtext d
           = (\<lparr>status = 500, body = failure ''Internal server error'' ''Failed to delete message''\<rparr>, d)
       \<and> (status (fst (post_messages P E b d)) \<noteq> 400 \<longrightarrow>
            post_messages P E b d
              = (\<lparr>status = 500, body = failure ''Internal server error'' ''Failed to create message''\<rparr>, d))
       \<and> get_test_db E d
           = \<lparr>status = 500,
              body = JObj [(''success'', JBool False),
                           (''error'', JStr ''Database connection failed''),
                           (''message'', JStr x)]\<rparr>
       \<and> get_check_tables E
           = \<lparr>status = 500, body = JObj [(''success'', JBool False), (''error'', JStr x)]\<rparr>"
proof (intro conjI impI)
  show "get_messages E d
           = \<lparr>status = 500,
              body = (if node_env E = Some ''development''
                      then JObj [(''success'', JBool False),
                                 (''error'', JStr ''Internal server error''),
                                 (''message'', JStr ''Failed to fetch messages''),
                                 (''details'', JStr x)]
                      else failure ''Internal server error'' ''Failed to fetch messages'')\<rparr>"
    using assms by (simp add: get_messages_def query_select_all_def res_json_def failure_def)
  show "get_message P E idtext d
           = \<lparr>status = 500, body = failure ''Internal server error'' ''Failed to fetch message''\<rparr>"
    using assms by (simp add: get_message_def query_select_by_id_def res_json_def to_json_failure)
  show "delete_message P E idtext d
           = (\<lparr>status = 500, body = failure ''Internal server error'' ''Failed to delete message''\<rparr>, d)"
    using assms by (simp add: delete_message_def query_delete_def res_json_def to_json_failure)
  show "get_test_db E d
           = \<lparr>status = 500,
              body = JObj [(''success'', JBool False),
                           (''error'', JStr ''Database connection failed''),
                           (''message'', JStr x)]\<rparr>"
    using assms by (simp add: get_test_db_def res_json_def)
  show "get_check_tables E
           = \<lparr>status = 500, body = JObj [(''success'', JBool False), (''error'', JStr x)]\<rparr>"
    using assms by (simp add: get_check_tables_def res_json_def)
next
  assume n: "status (fst (post_messages P E b d)) \<noteq> 400"
  show "post_messages P E b d
              = (\<lparr>status = 500, body = failure ''Internal server error'' ''Failed to create message''\<rparr>, d)"
    using post_messages_fault [OF assms n] by (simp add: res_json_def to_json_failure)
qed

theorem storage_failure_answers_witness:
  "get_messages (failing_env (Some ''development'') ''connection lost'') two_rows
     = \<lparr>status = 500,
        body = JObj [(''success'', JBool False),
                     (''error'', JStr ''Internal server error''),
                     (''message'', JStr ''Failed to fetch messages''),
                     (''details'', JStr ''connection lost'')]\<rparr>
   \<and> get_messages (failing_env (Some ''production'') ''connection lost'') two_rows
     = \<lparr>status = 500, body = failure ''Internal server error'' ''Failed to fetch messages''\<rparr>
   \<and> get_message decimal_platform (failing_env (Some ''development'') ''connection lost'') ''1'' two_rows
     = \<lparr>status = 500, body = failure ''Internal server error'' ''Failed to fetch message''\<rparr>
   \<and> get_test_db (failing_env (Some ''production'') ''connection lost'') two_rows
     = \<lparr>status = 500,
        body = JObj [(''success'', JBool False),
                     (''error'', JStr ''Database connection failed''),
                     (''message'', JStr ''connection lost'')]\<rparr>"
proof -
  have d: "fault (failing_env (Some ''development'') ''connection lost'') = Some ''connection lost''"
    by code_simp
  have p: "fault (failing_env (Some ''production'') ''connection lost'') = Some ''connection lost''"
    by code_simp
  have md: "node_env (failing_env (Some ''development'') ''connection lost'') = Some ''development''"
    by code_simp
  have mp: "node_env (failing_env (Some ''production'') ''connection lost'') \<noteq> Some ''development''"
    by code_simp
  from storage_failure_answers [OF d, of two_rows decimal_platform "''1''"]
       storage_failure_answers [OF p, of two_rows] md mp
  show ?thesis by simp
qed

text \<open>
  C8, as stated for every route, fails: under \<open>NODE_ENV=development\<close> the answer of
  \<open>POST /api/messages\<close> to a failure of the database does not hold the message of the
  failure.
\<close>

theorem create_failure_in_development_counterexample:
  "post_messages decimal_platform (failing_env (Some ''development'') ''connection lost'')
     (form ''Ada'' ''ada@example.com'' ''hello'') empty_db
   = (\<lparr>status = 500,
       body = JObj [(''success'', JBool False),
                    (''error'', JStr ''Internal server error''),
                    (''message'', JStr ''Failed to create message'')]\<rparr>,
      empty_db)"
  by code_simp

subsection \<open>Creating a message\<close>

lemma row_json_inject: "row_json r = row_json r' \<Longrightarrow> r = r'"
  by (cases r; cases r') (simp add: row_json_def)

lemma created_inject: "created r = created r' \<Longrightarrow> r = r'"
  by (rule row_json_inject) (simp add: res_json_def to_json_row_json row_json_def)

lemma db_insert_rows:
  assumes "db_insert now n e m d = (Inr rs, d')"
  shows "\<exists>r. rs = [r] \<and> d' = \<lparr>rows = rows d @ [r], id_seq = id_seq d + 1\<rparr>
           \<and> msg_id r = id_seq d \<and> created_at r = now \<and> updated_at r = now"
  using assms
  by (auto simp: db_insert_def Let_def split: option.splits if_splits)

lemma post_insert_created:
  assumes "post_insert E name email message d = (Inr res, d')"
  shows "\<exists>r. res = created r \<and> d' = \<lparr>rows = rows d @ [r], id_seq = id_seq d + 1\<rparr>
           \<and> msg_id r = id_seq d \<and> created_at r = db_time E \<and> updated_at r = db_time E"
proof -
  from assms obtain n e m rs where q: "query_insert E n e m d = (Inr rs, d')"
    and res: "case rs of [] \<Rightarrow> False | r # _ \<Rightarrow> res = created r"
    by (auto simp: post_insert_def split: sum.splits prod.splits list.splits)
  from q have "db_insert (db_time E) n e m d = (Inr rs, d')"
    by (auto simp: query_insert_def split: option.splits)
  then obtain r where "rs = [r]" "d' = \<lparr>rows = rows d @ [r], id_seq = id_seq d + 1\<rparr>"
    "msg_id r = id_seq d" "created_at r = db_time E" "updated_at r = db_time E"
    using db_insert_rows by blast
  with res show ?thesis by auto
qed


lemma post_try_201:
  assumes "post_messages_try P E b d = (Inr res, d')" "status res = 201"
  shows "\<exists>name email message. post_insert E name email message d = (Inr res, d')"
proof (cases "post_fields b")
  case (Inl t)
  with assms show ?thesis by (simp add: post_messages_try_def)
next
  case (Inr f)
  obtain name email message where f: "f = (name, email, message)" by (cases f) auto
  show ?thesis
  proof (cases "post_validation P name email message")
    case (Inl t)
    with assms Inr f show ?thesis by (simp add: post_messages_try_def)
  next
    case v: (Inr o')
    show ?thesis
    proof (cases o')
      case None
      with assms Inr f v have "post_insert E name email message d = (Inr res, d')"
        by (simp add: post_messages_try_def)
      then show ?thesis by blast
    next
      case (Some r)
      with v have "status r = 400" using post_validation_400 by blast
      moreover from Some assms Inr f v have "res = r" by (simp add: post_messages_try_def)
      ultimately show ?thesis using assms by simp
    qed
  qed
qed

lemma post_messages_created:
  assumes "post_messages P E b d = (created r, d')"
  shows "d' = \<lparr>rows = rows d @ [r], id_seq = id_seq d + 1\<rparr>
       \<and> msg_id r = id_seq d \<and> created_at r = db_time E \<and> updated_at r = db_time E"
proof (cases "post_messages_try P E b d")
  case (Pair x d1)
  show ?thesis
  proof (cases x)
    case (Inl t)
    with Pair assms have "status (created r) = 500"
      by (simp add: post_messages_def res_json_def)
    then show ?thesis by (simp add: res_json_def)
  next
    case (Inr res)
    with Pair assms have eq: "res = created r" "d1 = d'" by (simp_all add: post_messages_def)
    then have "status res = 201" by (simp add: res_json_def)
    with Pair Inr obtain name email message
      where "post_insert E name email message d = (Inr res, d1)"
      using post_try_201 by blast
    then obtain r' where "res = created r'" "d1 = \<lparr>rows = rows d @ [r'], id_seq = id_seq d + 1\<rparr>"
      "msg_id r' = id_seq d" "created_at r' = db_time E" "updated_at r' = db_time E"
      using post_insert_created by blast
    moreover from this eq have "r' = r" using created_inject by metis
    ultimately show ?thesis using eq by simp
  qed
qed







lemma handle_201: "status (fst (handle P E q d)) = 201 \<Longrightarrow> \<exists>b. q = CreateMessage b"
proof (cases q)
  case TestDb
  assume "status (fst (handle P E q d)) = 201"
  with TestDb show ?thesis by (simp add: get_test_db_def res_json_def split: option.splits)
next
  case CheckTables
  assume "status (fst (handle P E q d)) = 201"
  with CheckTables show ?thesis by (simp add: get_check_tables_def res_json_def split: option.splits)
next
  case ListMessages
  assume "status (fst (handle P E q d)) = 201"
  with ListMessages show ?thesis by (simp add: get_messages_def res_json_def split: sum.splits)
next
  case (GetMessage i)
  assume "status (fst (handle P E q d)) = 201"
  with GetMessage show ?thesis
    by (simp add: get_message_def res_json_def split: sum.splits list.splits)
next
  case (DeleteMessage i)
  assume "status (fst (handle P E q d)) = 201"
  with DeleteMessage show ?thesis
    by (simp add: delete_message_def res_json_def split: sum.splits prod.splits if_splits)
qed (simp_all add: get_health_def not_found_def error_handler_def res_json_def)

lemma handle_created:
  assumes "fst (handle P E q d) = created r"
  shows "snd (handle P E q d) = \<lparr>rows = rows d @ [r], id_seq = id_seq d + 1\<rparr>
       \<and> msg_id r = id_seq d \<and> created_at r = db_time E \<and> updated_at r = db_time E"
proof -
  from assms have "status (fst (handle P E q d)) = 201" by (simp add: res_json_def)
  then obtain b where q: "q = CreateMessage b" using handle_201 by blast
  with assms have "post_messages P E b d = (created r, snd (post_messages P E b d))"
    by (simp add: prod_eq_iff)
  from post_messages_created [OF this] q show ?thesis by simp
qed

lemma fst_run_Cons:
  "fst (run P ((E, q) # qs) d) = fst (handle P E q d) # fst (run P qs (snd (handle P E q d)))"
  by (simp add: case_prod_unfold)

lemma snd_run_Cons:
  "snd (run P ((E, q) # qs) d) = snd (run P qs (snd (handle P E q d)))"
  by (simp add: case_prod_unfold)







lemma post_validation_strings:
  assumes "n \<noteq> []" "e \<noteq> []" "m \<noteq> []" "length n \<le> 255" "length e \<le> 255"
  shows "post_validation P (JStr n) (JStr e) (JStr m) = Inr None"
  using assms by (simp add: post_validation_def)



text \<open>Every table that a sequence of requests builds from the empty one is well formed.\<close>

lemma delete_message_wf: "wf_db d \<Longrightarrow> wf_db (snd (delete_message P E idtext d))"
  by (auto simp: delete_message_def query_delete_def db_delete_def wf_db_def list_all_iff
                 distinct_map_filter split: option.splits)


lemma db_insert_wf: "wf_db d \<Longrightarrow> wf_db (snd (db_insert now n e m d))"
  by (auto simp: db_insert_def wf_db_def list_all_iff Let_def split: option.splits)

lemma post_insert_wf:
  assumes "wf_db d"
  shows "wf_db (snd (post_insert E name email message d))"
proof -
  have "wf_db (snd (query_insert E n e m d))" for n e m
    using assms db_insert_wf by (simp add: query_insert_def split: option.splits)
  with assms show ?thesis
    by (auto simp: post_insert_def split: sum.splits prod.splits list.splits)
       (metis snd_conv)+
qed

lemma post_messages_wf:
  assumes "wf_db d"
  shows "wf_db (snd (post_messages P E b d))"
  using assms post_insert_wf [OF assms, of E]
  by (auto simp: post_messages_def post_messages_try_def split: sum.splits prod.splits option.splits)
     (metis snd_conv)+

lemma wf_db_empty: "wf_db empty_db"
  by (simp add: wf_db_def empty_db_def)

lemma handle_wf: "wf_db d \<Longrightarrow> wf_db (snd (handle P E q d))"
  by (cases q) (simp_all add: post_messages_wf delete_message_wf)

lemma run_wf: "wf_db d \<Longrightarrow> wf_db (snd (run P qs d))"
proof (induction qs arbitrary: d)
  case Nil
  then show ?case by simp
next
  case (Cons a qs)
  obtain E q where "a = (E, q)" by (cases a)
  with Cons show ?case by (simp add: snd_run_Cons handle_wf del: run.simps)
qed




subsection \<open>Listing the messages\<close>

lemma sorted_key_unique:
  assumes "mset xs = mset ys" "sorted (map f xs)" "sorted (map f ys)" "distinct (map f xs)"
  shows "xs = ys"
proof -
  from assms(1) have m: "mset (map f xs) = mset (map f ys)" by simp
  with assms(4) have "distinct (map f ys)" using mset_eq_imp_distinct_iff by blast
  moreover from m have "set (map f xs) = set (map f ys)" by (rule mset_eq_setD)
  ultimately have eq: "map f xs = map f ys"
    using assms(2-4) by (intro sorted_distinct_set_unique)
  from assms(1) have "set xs = set ys" by (rule mset_eq_setD)
  moreover from assms(4) have "inj_on f (set xs)" by (simp add: distinct_map)
  ultimately have "inj_on f (set xs \<union> set ys)" by simp
  with eq show ?thesis by (simp add: inj_on_map_eq_map)
qed

lemma mset_db_select_all: "mset (db_select_all rank d) = mset (rows d)"
  by (simp add: db_select_all_def)

lemma db_select_all_descending:
  "sorted_wrt (\<lambda>a b. created_at b \<le> created_at a) (db_select_all rank d)"
proof -
  have "sorted (map (\<lambda>r. - created_at r) (db_select_all rank d))"
    unfolding db_select_all_def by (rule sorted_sort_key)
  then show ?thesis by (simp add: sorted_map)
qed

lemma db_select_all_increasing:
  assumes "sorted_wrt (\<lambda>a b. created_at a < created_at b) (rows d)"
  shows "db_select_all rank d = rev (rows d)"
proof (rule sorted_key_unique [where f = "\<lambda>r. - created_at r"])
  show "mset (db_select_all rank d) = mset (rev (rows d))" by (simp add: mset_db_select_all)
  show "sorted (map (\<lambda>r. - created_at r) (db_select_all rank d))"
    unfolding db_select_all_def by (rule sorted_sort_key)
  from assms have le: "sorted_wrt (\<lambda>a b. created_at a \<le> created_at b) (rows d)"
    by (rule sorted_wrt_mono_rel [rotated]) simp
  then show "sorted (map (\<lambda>r. - created_at r) (rev (rows d)))"
    by (simp add: sorted_map sorted_wrt_rev)
  from assms have "sorted_wrt (<) (map created_at (rows d))" by (simp add: sorted_wrt_map)
  then have "distinct (map created_at (rows d))" by (simp add: strict_sorted_iff)
  then have "distinct (map (\<lambda>r. - created_at r) (rows d))"
    by (simp add: distinct_map inj_on_def)
  then have "distinct (map (\<lambda>r. - created_at r) (rev (rows d)))" by (simp add: rev_map [symmetric] del: rev_map)
  moreover have "mset (map (\<lambda>r. - created_at r) (db_select_all rank d))
                 = mset (map (\<lambda>r. - created_at r) (rev (rows d)))"
    by (simp add: mset_db_select_all)
  ultimately show "distinct (map (\<lambda>r. - created_at r) (db_select_all rank d))"
    using mset_eq_imp_distinct_iff by blast
qed


text \<open>
  The parameter leaves the order of rows of equal \<open>created_at\<close> open: every arrangement
  of the rows of a table that is descending in \<open>created_at\<close> is the answer for some
  rank, hence the listing in some environment.
\<close>

lemma position_in_distinct:
  "distinct ms \<Longrightarrow> map (\<lambda>r. length (takeWhile (\<lambda>x. x \<noteq> r) ms)) ms = [0..<length ms]"
proof (induction ms rule: rev_induct)
  case Nil
  show ?case by simp
next
  case (snoc a ms)
  then have d: "distinct ms" "a \<notin> set ms" by simp_all
  have "map (\<lambda>r. length (takeWhile (\<lambda>x. x \<noteq> r) (ms @ [a]))) ms
        = map (\<lambda>r. length (takeWhile (\<lambda>x. x \<noteq> r) ms)) ms"
    by (rule map_cong) (auto simp: takeWhile_append1)
  moreover have "takeWhile (\<lambda>x. x \<noteq> a) (ms @ [a]) = ms"
    using d(2) by (subst takeWhile_append2) auto
  ultimately show ?case using snoc.IH [OF d(1)] by simp
qed

lemma every_descending_order_is_a_choice:
  assumes "distinct ms" "mset ms = mset (rows d)"
      and "sorted_wrt (\<lambda>a b. created_at b \<le> created_at a) ms"
  shows "\<exists>rank. db_select_all rank d = ms"
proof -
  define rank :: "message \<Rightarrow> int" where "rank r = int (length (takeWhile (\<lambda>x. x \<noteq> r) ms))" for r
  have "map rank ms = map int (map (\<lambda>r. length (takeWhile (\<lambda>x. x \<noteq> r) ms)) ms)"
    by (simp add: rank_def)
  then have "map rank ms = map int [0..<length ms]"
    using position_in_distinct [OF assms(1)] by simp
  then have s: "sorted (map rank ms)" "distinct (map rank ms)"
    by (simp_all add: sorted_map distinct_map inj_on_def sorted_wrt_map)
  have "ms = sort_key rank (rows d)"
  proof (rule sorted_key_unique [where f = rank])
    show "mset ms = mset (sort_key rank (rows d))" using assms(2) by simp
    show "sorted (map rank (sort_key rank (rows d)))" by (rule sorted_sort_key)
  qed (rule s)+
  moreover from assms(3) have "sorted (map (\<lambda>r. - created_at r) ms)" by (simp add: sorted_map)
  then have "sort_key (\<lambda>r. - created_at r) ms = ms" by (rule sort_key_id_if_sorted)
  ultimately have "db_select_all rank d = ms" by (simp add: db_select_all_def)
  then show ?thesis by blast
qed

lemma get_messages_up: "fault E = None \<Longrightarrow> get_messages E d = listing (db_select_all (tie_rank E) d)"
  by (simp add: get_messages_def query_select_all_def)

lemma run_creates_rows:
  "list_all is_create (map snd qs) \<Longrightarrow> fst (run P qs d) = map created rs
   \<Longrightarrow> rows (snd (run P qs d)) = rows d @ rs \<and> map created_at rs = map (db_time \<circ> fst) qs"
proof (induction qs arbitrary: d rs)
  case Nil
  then show ?case by simp
next
  case (Cons a qs)
  obtain E q where a: "a = (E, q)" by (cases a)
  from Cons.prems(2) a obtain r rs' where rs: "rs = r # rs'"
    "fst (handle P E q d) = created r"
    "fst (run P qs (snd (handle P E q d))) = map created rs'"
    by (cases rs) (simp_all add: fst_run_Cons del: run.simps)
  from rs(2) have h: "snd (handle P E q d) = \<lparr>rows = rows d @ [r], id_seq = id_seq d + 1\<rparr>"
    "created_at r = db_time E"
    using handle_created by blast+
  from Cons.prems(1) have "list_all is_create (map snd qs)" by simp
  from Cons.IH [OF this rs(3)] h a rs(1) show ?case
    by (simp add: snd_run_Cons del: run.simps)
qed


lemma every_descending_order_is_listed:
  assumes "distinct ms" "mset ms = mset (rows d)"
      and "sorted_wrt (\<lambda>a b. created_at b \<le> created_at a) ms"
  shows "\<exists>E. fault E = None \<and> get_messages E d = listing ms"
proof -
  from assms obtain rank where r: "db_select_all rank d = ms"
    using every_descending_order_is_a_choice by blast
  have "fault ((env_at 0)\<lparr>tie_rank := rank\<rparr>) = None" by (simp add: env_at_def)
  moreover from this have "get_messages ((env_at 0)\<lparr>tie_rank := rank\<rparr>) d = listing ms"
    using r by (simp add: get_messages_up)
  ultimately show ?thesis by blast
qed

text \<open>
  C3, as stated, fails. Two messages created at the same instant of the database clock
  are both listed, with equal \<open>created_at\<close>: the order is not strictly descending.
  And where the engine answers rows of equal \<open>created_at\<close> in the order of their
  insertion, the listing is the order of insertion, not its reverse.
\<close>

theorem equal_timestamps_counterexample:
  "get_messages (env_at 30)
     (snd (run decimal_platform
             [(env_at 7, CreateMessage (form ''Ada'' ''ada@example.com'' ''hello'')),
              (env_at 7, CreateMessage (form ''Bob'' ''bob@example.com'' ''hi''))] empty_db))
     = listing [\<lparr>msg_id = 1, msg_name = ''Ada'', msg_email = ''ada@example.com'',
                  msg_message = ''hello'', created_at = 7, updated_at = 7\<rparr>,
                \<lparr>msg_id = 2, msg_name = ''Bob'', msg_email = ''bob@example.com'',
                  msg_message = ''hi'', created_at = 7, updated_at = 7\<rparr>]
   \<and> \<not> sorted_wrt (\<lambda>a b. created_at b < created_at a)
          [\<lparr>msg_id = 1, msg_name = ''Ada'', msg_email = ''ada@example.com'',
             msg_message = ''hello'', created_at = 7, updated_at = 7\<rparr>,
           \<lparr>msg_id = 2, msg_name = ''Bob'', msg_email = ''bob@example.com'',
             msg_message = ''hi'', created_at = 7, updated_at = 7\<rparr>]
   \<and> rows (snd (run decimal_platform
             [(env_at 7, CreateMessage (form ''Ada'' ''ada@example.com'' ''hello'')),
              (env_at 7, CreateMessage (form ''Bob'' ''bob@example.com'' ''hi''))] empty_db))
       = [\<lparr>msg_id = 1, msg_name = ''Ada'', msg_email = ''ada@example.com'',
             msg_message = ''hello'', created_at = 7, updated_at = 7\<rparr>,
           \<lparr>msg_id = 2, msg_name = ''Bob'', msg_email = ''bob@example.com'',
             msg_message = ''hi'', created_at = 7, updated_at = 7\<rparr>]"
  by code_simp

text \<open>
  C3, amended. With no failure of the database, \<open>GET /api/messages\<close> answers 200 with
  every stored row, ordered by \<open>created_at\<close> descending; the order of rows of equal
  \<open>created_at\<close> is the choice of the engine. When the rows were stored at strictly
  increasing instants, the order is strictly descending and is the reverse of the order
  of insertion; so after a sequence of creations at strictly increasing instants on the
  empty table the listing holds the created rows, the last one first. On a table without
  rows the answer is 200 with the empty list.
\<close>

theorem listing_descending:
  assumes "fault E = None"
  shows "get_messages E d = listing (db_select_all (tie_rank E) d)
       \<and> mset (db_select_all (tie_rank E) d) = mset (rows d)
       \<and> sorted_wrt (\<lambda>a b. created_at b \<le> created_at a) (db_select_all (tie_rank E) d)
       \<and> (sorted_wrt (\<lambda>a b. created_at a < created_at b) (rows d) \<longrightarrow>
            get_messages E d = listing (rev (rows d))
            \<and> sorted_wrt (\<lambda>a b. created_at b < created_at a) (rev (rows d)))
       \<and> (rows d = [] \<longrightarrow> get_messages E d = listing [])
       \<and> (\<forall>qs rs. list_all is_create (map snd qs)
                    \<and> sorted_wrt (<) (map (db_time \<circ> fst) qs)
                    \<and> fst (run P qs empty_db) = map created rs
                    \<longrightarrow> get_messages E (snd (run P qs empty_db)) = listing (rev rs))"
proof (intro conjI impI allI)
  show l: "get_messages E d = listing (db_select_all (tie_rank E) d)"
    using assms by (rule get_messages_up)
  show "mset (db_select_all (tie_rank E) d) = mset (rows d)" by (rule mset_db_select_all)
  show "sorted_wrt (\<lambda>a b. created_at b \<le> created_at a) (db_select_all (tie_rank E) d)"
    by (rule db_select_all_descending)
  show "get_messages E d = listing []" if "rows d = []"
    using l that by (simp add: db_select_all_def)
next
  assume inc: "sorted_wrt (\<lambda>a b. created_at a < created_at b) (rows d)"
  then have "db_select_all (tie_rank E) d = rev (rows d)" by (rule db_select_all_increasing)
  then show "get_messages E d = listing (rev (rows d))"
    using get_messages_up [OF assms, of d] by simp
  from inc show "sorted_wrt (\<lambda>a b. created_at b < created_at a) (rev (rows d))"
    by (simp add: sorted_wrt_rev)
next
  fix qs rs
  assume h: "list_all is_create (map snd qs)
                    \<and> sorted_wrt (<) (map (db_time \<circ> fst) qs)
                    \<and> fst (run P qs empty_db) = map created rs"
  then have "rows (snd (run P qs empty_db)) = rows empty_db @ rs"
    "map created_at rs = map (db_time \<circ> fst) qs"
    using run_creates_rows by blast+
  with h have "rows (snd (run P qs empty_db)) = rs" "sorted_wrt (<) (map created_at rs)"
    by (simp_all add: empty_db_def)
  then have "sorted_wrt (\<lambda>a b. created_at a < created_at b) (rows (snd (run P qs empty_db)))"
    by (simp add: sorted_wrt_map)
  then have "db_select_all (tie_rank E) (snd (run P qs empty_db))
               = rev (rows (snd (run P qs empty_db)))"
    by (rule db_select_all_increasing)
  with \<open>rows (snd (run P qs empty_db)) = rs\<close>
  show "get_messages E (snd (run P qs empty_db)) = listing (rev rs)"
    using get_messages_up [OF assms] by simp
qed

theorem listing_descending_witness:
  "get_messages (env_at 30) two_rows
     = listing [\<lparr>msg_id = 2, msg_name = ''Bob'', msg_email = ''bob@example.com'',
                  msg_message = ''hi'', created_at = 20, updated_at = 20\<rparr>,
                \<lparr>msg_id = 1, msg_name = ''Ada'', msg_email = ''ada@example.com'',
                  msg_message = ''hello'', created_at = 10, updated_at = 10\<rparr>]
   \<and> get_messages (env_at 30) empty_db = listing []
   \<and> get_messages (env_at 30)
        (snd (run decimal_platform
                [(env_at 5, CreateMessage (form ''Ada'' ''ada@example.com'' ''hello'')),
                 (env_at 7, CreateMessage (form ''Bob'' ''bob@example.com'' ''hi''))] empty_db))
       = listing [\<lparr>msg_id = 2, msg_name = ''Bob'', msg_email = ''bob@example.com'',
                    msg_message = ''hi'', created_at = 7, updated_at = 7\<rparr>,
                  \<lparr>msg_id = 1, msg_name = ''Ada'', msg_email = ''ada@example.com'',
                    msg_message = ''hello'', created_at = 5, updated_at = 5\<rparr>]"
proof -
  let ?qs = "[(env_at 5, CreateMessage (form ''Ada'' ''ada@example.com'' ''hello'')),
              (env_at 7, CreateMessage (form ''Bob'' ''bob@example.com'' ''hi''))]"
  let ?r1 = "\<lparr>msg_id = 1, msg_name = ''Ada'', msg_email = ''ada@example.com'',
              msg_message = ''hello'', created_at = 5, updated_at = 5\<rparr>"
  let ?r2 = "\<lparr>msg_id = 2, msg_name = ''Bob'', msg_email = ''bob@example.com'',
              msg_message = ''hi'', created_at = 7, updated_at = 7\<rparr>"
  have up: "fault (env_at 30) = None" by code_simp
  have inc: "sorted_wrt (\<lambda>a b. created_at a < created_at b) (rows two_rows)"
    by (simp add: two_rows_def)
  have e: "rows empty_db = []" by (simp add: empty_db_def)
  have c: "list_all is_create (map snd ?qs)" by simp
  have t: "sorted_wrt (<) (map (db_time \<circ> fst) ?qs)" by (simp add: env_at_def)
  have r: "fst (run decimal_platform ?qs empty_db) = map created [?r1, ?r2]" by code_simp
  from listing_descending [OF up, of two_rows decimal_platform] inc
  have "get_messages (env_at 30) two_rows = listing (rev (rows two_rows))" by blast
  moreover from listing_descending [OF up, of empty_db decimal_platform] e
  have "get_messages (env_at 30) empty_db = listing []" by blast
  moreover from listing_descending [OF up, of two_rows decimal_platform] c t r
  have "get_messages (env_at 30) (snd (run decimal_platform ?qs empty_db)) = listing (rev [?r1, ?r2])"
    by blast
  ultimately show ?thesis by (simp add: two_rows_def)
qed

subsection \<open>What the validation decides on strings\<close>

text \<open>
  For a body of three strings the answer is 400 exactly when a field is empty as it
  comes, before any trimming, or name or email has more than 255 code units.
\<close>

lemma post_strings_400_iff:
  assumes "post_fields b = Inr (JStr n, JStr e, JStr m)"
  shows "status (fst (post_messages P E b d)) = 400
         \<longleftrightarrow> n = [] \<or> e = [] \<or> m = [] \<or> 255 < length n \<or> 255 < length e"
proof (cases "n = [] \<or> e = [] \<or> m = [] \<or> 255 < length n \<or> 255 < length e")
  case True
  then have "\<exists>res. post_validation P (JStr n) (JStr e) (JStr m) = Inr (Some res)"
    by (auto simp: post_validation_def)
  then obtain res where "post_validation P (JStr n) (JStr e) (JStr m) = Inr (Some res)" ..
  moreover from this have "status res = 400" by (rule post_validation_400)
  ultimately show ?thesis using assms True
    by (simp add: post_messages_def post_messages_try_def)
next
  case False
  then have v: "post_validation P (JStr n) (JStr e) (JStr m) = Inr None"
    by (simp add: post_validation_strings)
  have "status (fst (post_messages P E b d)) \<noteq> 400"
  proof (cases "post_insert E (JStr n) (JStr e) (JStr m) d")
    case (Pair x d')
    show ?thesis
    proof (cases x)
      case (Inl t)
      with Pair v assms show ?thesis
        by (simp add: post_messages_def post_messages_try_def res_json_def)
    next
      case (Inr res)
      with Pair have "status res = 201" using post_insert_201 by blast
      with Pair Inr v assms show ?thesis
        by (simp add: post_messages_def post_messages_try_def)
    qed
  qed
  with False show ?thesis by simp
qed

end
